theory Spec2Isabelle
  imports Main
begin

section \<open>Theme management of the Evo SDK website (public/theme.js)\<close>

text \<open>
  The script keeps one preference string in \<^verbatim>\<open>localStorage\<close>, resolves it against the
  operating system's dark-mode media query, writes the result to the document and builds a
  dropdown widget. Everything the script touches in the browser is a field of the record
  \<open>world\<close>; every function of the script takes the world and returns the new one. A call
  that may throw returns \<open>js_error + 'a\<close>, with \<open>Inl\<close> for the exception. A listener
  or a callback that throws also says which world it left behind.
\<close>

subsection \<open>Constants\<close>

abbreviation THEME_KEY :: string where "THEME_KEY \<equiv> ''evo-sdk-theme''"

text \<open>The object \<^verbatim>\<open>THEMES\<close>.\<close>

abbreviation LIGHT :: string where "LIGHT \<equiv> ''light''"
abbreviation DARK :: string where "DARK \<equiv> ''dark''"
abbreviation SYSTEM :: string where "SYSTEM \<equiv> ''system''"

text \<open>
  The object \<^verbatim>\<open>ICONS\<close> has three entries, each a fixed SVG markup string. The markup
  is never inspected, so an entry is named by its key.
\<close>

datatype icon = ICONS_sun | ICONS_moon | ICONS_system

subsection \<open>JavaScript values\<close>

text \<open>
  A preference is a JavaScript string or \<^verbatim>\<open>null\<close>: \<open>None\<close> is \<^verbatim>\<open>null\<close>.
  \<open>truthy\<close> is JavaScript's conversion to boolean on such a value (\<^verbatim>\<open>null\<close> and the
  empty string are falsy), and \<open>js_or a b\<close> is \<^verbatim>\<open>a || b\<close> with a string \<open>b\<close>.
\<close>

definition truthy :: "string option \<Rightarrow> bool" where
  "truthy v = (case v of None \<Rightarrow> False | Some s \<Rightarrow> s \<noteq> [])"

definition js_or :: "string option \<Rightarrow> string \<Rightarrow> string" where
  "js_or a b = (case a of None \<Rightarrow> b | Some s \<Rightarrow> if s = [] then b else s)"

datatype js_error = SecurityError | QuotaExceededError | ReferenceError

definition andThen :: "'e + 'a \<Rightarrow> ('a \<Rightarrow> 'e + 'b) \<Rightarrow> 'e + 'b" where
  "andThen m f = (case m of Inl e \<Rightarrow> Inl e | Inr x \<Rightarrow> f x)"

subsection \<open>The browser state\<close>

text \<open>
  \<^verbatim>\<open>localStorage\<close>: the stored items, and which calls the browser refuses. A refused
  \<^verbatim>\<open>getItem\<close> or \<^verbatim>\<open>setItem\<close> throws (storage disabled, private browsing, quota).
\<close>

record storage =
  items :: "string \<rightharpoonup> string"
  getItem_error :: "string \<Rightarrow> js_error option"
  setItem_error :: "string \<Rightarrow> string \<Rightarrow> js_error option"

definition localStorage_getItem :: "storage \<Rightarrow> string \<Rightarrow> js_error + string option" where
  "localStorage_getItem s k =
     (case getItem_error s k of Some e \<Rightarrow> Inl e | None \<Rightarrow> Inr (items s k))"

definition localStorage_setItem :: "storage \<Rightarrow> string \<Rightarrow> string \<Rightarrow> js_error + storage" where
  "localStorage_setItem s k v =
     (case setItem_error s k v of
        Some e \<Rightarrow> Inl e
      | None \<Rightarrow> Inr (s\<lparr>items := (items s)(k \<mapsto> v)\<rparr>))"

text \<open>
  Listeners are the closures the script registers, named by the place that creates them
  together with the variables they capture: a widget is captured as its reference (its
  index in \<open>widgets\<close>), a callback as a reference to a function of the caller.
\<close>

datatype listener =
    SystemThemeHandler "nat option"
  | BtnClick nat
  | OptionClick nat nat
  | DocumentClick nat
  | BtnKeydown nat
  | InitThemeUI

datatype target = DocumentT | MediaQueryT | BtnT nat | OptionT nat nat

text \<open>
  The list returned by \<^verbatim>\<open>window.matchMedia('(prefers-color-scheme: dark)')\<close>:
  whether it matches, and whether it has the modern \<^verbatim>\<open>addEventListener\<close>.
\<close>

record media_query =
  matches :: bool
  has_addEventListener :: bool

text \<open>
  The widget built by \<open>createThemeSelector\<close>: the button (icon span, label span,
  \<^verbatim>\<open>aria-expanded\<close>), the dropdown (whether its class list holds \<^verbatim>\<open>open\<close>) and the
  option buttons (\<^verbatim>\<open>data-theme\<close>, whether the class list holds \<^verbatim>\<open>active\<close>, icon and
  text).
\<close>

record theme_option =
  dataset_theme :: string
  active :: bool
  option_icon :: icon
  option_text :: string

record selector =
  btn_icon_innerHTML :: icon
  btn_label_textContent :: string
  btn_aria_expanded :: string
  dropdown_open :: bool
  options :: "theme_option list"

datatype node = DocumentElement | MetaThemeColor

datatype dom_write = SetAttribute node string string | AppendChild string nat

datatype ready_state = Loading | Interactive | Complete

text \<open>
  \<open>matchMedia\<close> is \<open>None\<close> where \<^verbatim>\<open>window.matchMedia\<close> is undefined.
  \<open>documentElement\<close> holds the attributes of the root element, \<open>meta_theme_color\<close>
  those of \<^verbatim>\<open><meta name="theme-color">\<close> when the page has one. \<open>elements\<close> maps an
  id to the widgets appended to that element. \<open>document_writes\<close> lists, in the order
  they happen, the writes the script makes to the page outside a widget's own subtree.
\<close>

record world =
  localStorage :: storage
  matchMedia :: "media_query option"
  documentElement :: "string \<rightharpoonup> string"
  meta_theme_color :: "(string \<rightharpoonup> string) option"
  elements :: "string \<rightharpoonup> nat list"
  widgets :: "selector list"
  listeners :: "(target \<times> string \<times> listener) list"
  readyState :: ready_state
  ThemeManager :: bool
  document_writes :: "dom_write list"

subsection \<open>DOM calls\<close>

definition documentElement_setAttribute :: "string \<Rightarrow> string \<Rightarrow> world \<Rightarrow> world" where
  "documentElement_setAttribute name v w =
     w\<lparr>documentElement := (documentElement w)(name \<mapsto> v),
       document_writes := document_writes w @ [SetAttribute DocumentElement name v]\<rparr>"

definition metaThemeColor_setAttribute :: "string \<Rightarrow> string \<Rightarrow> world \<Rightarrow> world" where
  "metaThemeColor_setAttribute name v w =
     (case meta_theme_color w of
        None \<Rightarrow> w
      | Some attrs \<Rightarrow>
          w\<lparr>meta_theme_color := Some (attrs(name \<mapsto> v)),
            document_writes := document_writes w @ [SetAttribute MetaThemeColor name v]\<rparr>)"

definition getElementById :: "world \<Rightarrow> string \<Rightarrow> nat list option" where
  "getElementById w ident = elements w ident"

definition appendChild :: "string \<Rightarrow> nat \<Rightarrow> world \<Rightarrow> world" where
  "appendChild ident r w =
     (case elements w ident of
        None \<Rightarrow> w
      | Some children \<Rightarrow>
          w\<lparr>elements := (elements w)(ident \<mapsto> children @ [r]),
            document_writes := document_writes w @ [AppendChild ident r]\<rparr>)"

definition addEventListener :: "target \<Rightarrow> string \<Rightarrow> listener \<Rightarrow> world \<Rightarrow> world" where
  "addEventListener t ty l w = w\<lparr>listeners := listeners w @ [(t, ty, l)]\<rparr>"

definition update_widget :: "nat \<Rightarrow> (selector \<Rightarrow> selector) \<Rightarrow> world \<Rightarrow> world" where
  "update_widget r f w = w\<lparr>widgets := (widgets w)[r := f (widgets w ! r)]\<rparr>"

text \<open>
  A listener or a callback either returns, with the new world, or throws, with the
  exception and the world it had reached: what it wrote before the throw stays written.
  \<open>thrown_at w\<close> is for a call that can throw only before it has changed anything.
\<close>

type_synonym completion = "(js_error \<times> world) + world"

definition thrown_at :: "world \<Rightarrow> js_error + 'a \<Rightarrow> (js_error \<times> world) + 'a" where
  "thrown_at w m = (case m of Inl e \<Rightarrow> Inl (e, w) | Inr x \<Rightarrow> Inr x)"

subsection \<open>The functions of theme.js\<close>

definition getSystemTheme :: "world \<Rightarrow> string" where
  "getSystemTheme w =
     (case matchMedia w of
        None \<Rightarrow> LIGHT
      | Some mq \<Rightarrow> if matches mq then DARK else LIGHT)"

text \<open>\<^verbatim>\<open>try { return localStorage.getItem(THEME_KEY); } catch { return null; }\<close>\<close>

definition getStoredTheme :: "world \<Rightarrow> js_error + string option" where
  "getStoredTheme w =
     (case localStorage_getItem (localStorage w) THEME_KEY of
        Inr v \<Rightarrow> Inr v
      | Inl e \<Rightarrow> Inr None)"

text \<open>
  \<^verbatim>\<open>try { localStorage.setItem(THEME_KEY, theme); } catch { }\<close>. The theme is a
  string: the script's only caller passes the \<^verbatim>\<open>data-theme\<close> of an option.
\<close>

definition storeTheme :: "string \<Rightarrow> world \<Rightarrow> js_error + world" where
  "storeTheme theme w =
     (case localStorage_setItem (localStorage w) THEME_KEY theme of
        Inr s \<Rightarrow> Inr (w\<lparr>localStorage := s\<rparr>)
      | Inl e \<Rightarrow> Inr w)"

definition getEffectiveTheme :: "world \<Rightarrow> string option \<Rightarrow> string" where
  "getEffectiveTheme w preference =
     (if preference = Some SYSTEM \<or> \<not> truthy preference then getSystemTheme w
      else (case preference of Some p \<Rightarrow> p | None \<Rightarrow> getSystemTheme w))"

definition applyTheme :: "string option \<Rightarrow> world \<Rightarrow> world" where
  "applyTheme theme w =
     (let effectiveTheme = getEffectiveTheme w theme;
          w1 = documentElement_setAttribute ''data-theme'' effectiveTheme w
      in case meta_theme_color w1 of
           None \<Rightarrow> w1
         | Some metaThemeColor \<Rightarrow>
             metaThemeColor_setAttribute ''content''
               (if effectiveTheme = DARK then ''#0f3460'' else ''#2c3e50'') w1)"

definition initTheme :: "world \<Rightarrow> js_error + (string \<times> world)" where
  "initTheme w =
     andThen (getStoredTheme w) (\<lambda>stored.
       let storedTheme = js_or stored SYSTEM
       in Inr (storedTheme, applyTheme (Some storedTheme) w))"

text \<open>
  The closure \<^verbatim>\<open>handler\<close> of \<open>setupSystemThemeListener\<close>, with the callback it
  captured (\<open>None\<close> when the caller passed none).
\<close>

definition handler :: "(string \<Rightarrow> world \<Rightarrow> completion) option \<Rightarrow> world \<Rightarrow> completion" where
  "handler callback w =
     andThen (thrown_at w (getStoredTheme w)) (\<lambda>storedTheme.
       if storedTheme = Some SYSTEM \<or> \<not> truthy storedTheme then
         (let w1 = applyTheme (Some SYSTEM) w
          in case callback of None \<Rightarrow> Inr w1 | Some cb \<Rightarrow> cb SYSTEM w1)
       else Inr w)"

text \<open>The legacy \<^verbatim>\<open>MediaQueryList.addListener\<close> registers for the change event.\<close>

definition addListener :: "listener \<Rightarrow> world \<Rightarrow> world" where
  "addListener l w = addEventListener MediaQueryT ''change'' l w"

definition setupSystemThemeListener :: "nat option \<Rightarrow> world \<Rightarrow> world" where
  "setupSystemThemeListener callback w =
     (case matchMedia w of
        None \<Rightarrow> w
      | Some mediaQuery \<Rightarrow>
          if has_addEventListener mediaQuery
          then addEventListener MediaQueryT ''change'' (SystemThemeHandler callback) w
          else addListener (SystemThemeHandler callback) w)"

fun getIconForTheme :: "string \<Rightarrow> icon" where
  "getIconForTheme theme =
     (if theme = LIGHT then ICONS_sun
      else if theme = DARK then ICONS_moon
      else ICONS_system)"

fun getLabelForTheme :: "string \<Rightarrow> string" where
  "getLabelForTheme theme =
     (if theme = LIGHT then ''Light''
      else if theme = DARK then ''Dark''
      else ''System'')"

text \<open>
  The element the template of \<open>createThemeSelector\<close> produces for a current theme:
  the button shows its icon and label and is not expanded, the dropdown is closed, and
  the three options are Light, Dark and System in this order.
\<close>

definition selector_template :: "string \<Rightarrow> selector" where
  "selector_template currentTheme =
     \<lparr>btn_icon_innerHTML = getIconForTheme currentTheme,
      btn_label_textContent = getLabelForTheme currentTheme,
      btn_aria_expanded = ''false'',
      dropdown_open = False,
      options =
        [\<lparr>dataset_theme = LIGHT, active = (currentTheme = LIGHT),
          option_icon = ICONS_sun, option_text = ''Light''\<rparr>,
         \<lparr>dataset_theme = DARK, active = (currentTheme = DARK),
          option_icon = ICONS_moon, option_text = ''Dark''\<rparr>,
         \<lparr>dataset_theme = SYSTEM, active = (currentTheme = SYSTEM),
          option_icon = ICONS_system, option_text = ''System''\<rparr>]\<rparr>"

text \<open>
  \<open>createThemeSelector\<close> returns the new widget's reference, or \<open>None\<close> for
  \<^verbatim>\<open>undefined\<close> when the container is missing.
\<close>

definition createThemeSelector :: "string \<Rightarrow> world \<Rightarrow> js_error + (nat option \<times> world)" where
  "createThemeSelector containerId w =
     (case getElementById w containerId of
        None \<Rightarrow> Inr (None, w)
      | Some container \<Rightarrow>
          andThen (getStoredTheme w) (\<lambda>stored.
            let currentTheme = js_or stored SYSTEM;
                r = length (widgets w);
                w1 = w\<lparr>widgets := widgets w @ [selector_template currentTheme]\<rparr>;
                w2 = appendChild containerId r w1;
                w3 = addEventListener (BtnT r) ''click'' (BtnClick r) w2;
                w4 = fold (\<lambda>(i, option). addEventListener (OptionT r i) ''click'' (OptionClick r i))
                       (enumerate 0 (options (widgets w3 ! r))) w3;
                w5 = addEventListener DocumentT ''click'' (DocumentClick r) w4;
                w6 = addEventListener (BtnT r) ''keydown'' (BtnKeydown r) w5
            in Inr (Some r, w6)))"

definition setTheme :: "string \<Rightarrow> nat option \<Rightarrow> world \<Rightarrow> js_error + world" where
  "setTheme theme selectorElement w =
     andThen (storeTheme theme w) (\<lambda>w1.
       let w2 = applyTheme (Some theme) w1
       in case selectorElement of
            None \<Rightarrow> Inr w2
          | Some r \<Rightarrow>
              Inr (update_widget r (\<lambda>s. s\<lparr>options :=
                       map (\<lambda>opt. opt\<lparr>active := (dataset_theme opt = theme)\<rparr>) (options s)\<rparr>)
                    (update_widget r (\<lambda>s. s\<lparr>btn_label_textContent := getLabelForTheme theme\<rparr>)
                      (update_widget r (\<lambda>s. s\<lparr>btn_icon_innerHTML := getIconForTheme theme\<rparr>)
                        w2))))"

subsection \<open>The listeners of the widget\<close>

text \<open>
  \<^verbatim>\<open>btn.setAttribute('aria-expanded', !isOpen)\<close> stores the boolean as a string.
\<close>

definition js_bool_string :: "bool \<Rightarrow> string" where
  "js_bool_string b = (if b then ''true'' else ''false'')"

definition close_dropdown :: "nat \<Rightarrow> world \<Rightarrow> world" where
  "close_dropdown r w =
     update_widget r (\<lambda>s. s\<lparr>btn_aria_expanded := ''false''\<rparr>)
       (update_widget r (\<lambda>s. s\<lparr>dropdown_open := False\<rparr>) w)"

definition btnClick :: "nat \<Rightarrow> world \<Rightarrow> world" where
  "btnClick r w =
     (let isOpen = dropdown_open (widgets w ! r)
      in update_widget r (\<lambda>s. s\<lparr>btn_aria_expanded := js_bool_string (\<not> isOpen)\<rparr>)
           (update_widget r (\<lambda>s. s\<lparr>dropdown_open := \<not> dropdown_open s\<rparr>) w))"

definition optionClick :: "nat \<Rightarrow> nat \<Rightarrow> world \<Rightarrow> js_error + world" where
  "optionClick r i w =
     (let theme = dataset_theme (options (widgets w ! r) ! i)
      in andThen (setTheme theme (Some r) w) (\<lambda>w1. Inr (close_dropdown r w1)))"

definition documentClick :: "nat \<Rightarrow> world \<Rightarrow> world" where
  "documentClick r w = close_dropdown r w"

definition btnKeydown :: "nat \<Rightarrow> string \<Rightarrow> world \<Rightarrow> world" where
  "btnKeydown r key w = (if key = ''Escape'' then close_dropdown r w else w)"

subsection \<open>Page load\<close>

definition initThemeUI :: "world \<Rightarrow> js_error + world" where
  "initThemeUI w =
     (case getElementById w ''themeToggle'' of
        None \<Rightarrow> Inr w
      | Some container \<Rightarrow>
          if ThemeManager w then
            andThen (createThemeSelector ''themeToggle'' w) (\<lambda>(sel, w1).
              Inr (setupSystemThemeListener None w1))
          else Inr w)"

text \<open>
  The top level of the script: \<open>initTheme()\<close>, the export to \<^verbatim>\<open>window.ThemeManager\<close>
  (the script runs in a browser, where \<^verbatim>\<open>window\<close> is defined), then the immediately
  invoked function that runs \<open>initThemeUI\<close> now or on \<^verbatim>\<open>DOMContentLoaded\<close>.
\<close>

definition script :: "world \<Rightarrow> js_error + world" where
  "script w =
     andThen (initTheme w) (\<lambda>(storedTheme, w1).
       let w2 = w1\<lparr>ThemeManager := True\<rparr>
       in if readyState w2 = Loading
          then Inr (addEventListener DocumentT ''DOMContentLoaded'' InitThemeUI w2)
          else initThemeUI w2)"

subsection \<open>Events\<close>

text \<open>
  The browser's side of an event. \<open>call\<close> resolves a callback reference.
  \<open>run_listener\<close> is the body of each closure. \<open>optionClick\<close> and \<open>initThemeUI\<close>
  can throw only through \<open>storeTheme\<close> and \<open>getStoredTheme\<close>, which they call before
  they change anything. The button's click listener is the only one that calls
  \<^verbatim>\<open>e.stopPropagation()\<close>, and it does so on every run.
\<close>

datatype dom_event = Click | Keydown string | Change | DOMContentLoaded

fun event_type :: "dom_event \<Rightarrow> string" where
  "event_type Click = ''click''"
| "event_type (Keydown k) = ''keydown''"
| "event_type Change = ''change''"
| "event_type DOMContentLoaded = ''DOMContentLoaded''"

fun run_listener ::
  "(nat \<Rightarrow> string \<Rightarrow> world \<Rightarrow> completion) \<Rightarrow> listener \<Rightarrow> dom_event \<Rightarrow> world \<Rightarrow> completion" where
  "run_listener call (SystemThemeHandler cb) ev w = handler (map_option call cb) w"
| "run_listener call (BtnClick r) ev w = Inr (btnClick r w)"
| "run_listener call (OptionClick r i) ev w = thrown_at w (optionClick r i w)"
| "run_listener call (DocumentClick r) ev w = Inr (documentClick r w)"
| "run_listener call (BtnKeydown r) ev w =
     (case ev of Keydown k \<Rightarrow> Inr (btnKeydown r k w) | _ \<Rightarrow> Inr w)"
| "run_listener call InitThemeUI ev w = thrown_at w (initThemeUI w)"

fun stops_propagation :: "listener \<Rightarrow> bool" where
  "stops_propagation (BtnClick r) = True"
| "stops_propagation l = False"

text \<open>
  The path of an event: its target, then the ancestors that can have listeners of this
  script. A widget is inserted below an element of the document when it is built, so a
  click or a key press in it bubbles up to the document. The media query list is not a
  node; its change event goes nowhere else.
\<close>

fun propagation_path :: "target \<Rightarrow> target list" where
  "propagation_path (BtnT r) = [BtnT r, DocumentT]"
| "propagation_path (OptionT r i) = [OptionT r i, DocumentT]"
| "propagation_path DocumentT = [DocumentT]"
| "propagation_path MediaQueryT = [MediaQueryT]"

definition listeners_for :: "target \<Rightarrow> dom_event \<Rightarrow> world \<Rightarrow> listener list" where
  "listeners_for t ev w =
     map (\<lambda>(t', ty, l). l)
       (filter (\<lambda>(t', ty, l). t' = t \<and> ty = event_type ev) (listeners w))"

text \<open>
  On one target the listeners run in the order of registration. A listener that throws
  does not stop the others: the browser reports its exception and goes on from the world
  the listener left. The result is the world, the exceptions reported so far, and whether
  a listener has stopped the propagation.
\<close>

fun invoke ::
  "(nat \<Rightarrow> string \<Rightarrow> world \<Rightarrow> completion) \<Rightarrow> listener list \<Rightarrow> dom_event
     \<Rightarrow> world \<times> js_error list \<times> bool \<Rightarrow> world \<times> js_error list \<times> bool" where
  "invoke call [] ev acc = acc"
| "invoke call (l # ls) ev (w, errs, stopped) =
     (case run_listener call l ev w of
        Inr w' \<Rightarrow> invoke call ls ev (w', errs, stopped \<or> stops_propagation l)
      | Inl (e, w') \<Rightarrow> invoke call ls ev (w', errs @ [e], stopped \<or> stops_propagation l))"

text \<open>
  Along the path, each target's listeners are those registered when the event reaches
  it; the event goes on to the next target unless a listener stopped it.
\<close>

fun propagate ::
  "(nat \<Rightarrow> string \<Rightarrow> world \<Rightarrow> completion) \<Rightarrow> target list \<Rightarrow> dom_event
     \<Rightarrow> world \<times> js_error list \<Rightarrow> world \<times> js_error list" where
  "propagate call [] ev (w, errs) = (w, errs)"
| "propagate call (t # ts) ev (w, errs) =
     (case invoke call (listeners_for t ev w) ev (w, errs, False) of
        (w', errs', stopped) \<Rightarrow>
          if stopped then (w', errs') else propagate call ts ev (w', errs'))"

text \<open>\<open>dispatch\<close> returns the world after the event and the exceptions reported.\<close>

definition dispatch ::
  "(nat \<Rightarrow> string \<Rightarrow> world \<Rightarrow> completion) \<Rightarrow> target \<Rightarrow> dom_event \<Rightarrow> world
     \<Rightarrow> world \<times> js_error list" where
  "dispatch call t ev w = propagate call (propagation_path t) ev (w, [])"

text \<open>
  The operating system's preference changes to \<open>dark\<close> (or to light): the media query
  list, where the browser has one, matches accordingly and its change event fires.
\<close>

definition set_system_dark :: "bool \<Rightarrow> world \<Rightarrow> world" where
  "set_system_dark dark w =
     w\<lparr>matchMedia := map_option (\<lambda>mq. mq\<lparr>matches := dark\<rparr>) (matchMedia w)\<rparr>"

definition media_change ::
  "(nat \<Rightarrow> string \<Rightarrow> world \<Rightarrow> completion) \<Rightarrow> bool \<Rightarrow> world \<Rightarrow> world \<times> js_error list" where
  "media_change call dark w =
     (case matchMedia w of
        None \<Rightarrow> (w, [])
      | Some mq \<Rightarrow> dispatch call MediaQueryT Change (set_system_dark dark w))"

text \<open>
  One page load: the script runs; when the document was still loading, the parser
  finishes (\<open>late\<close> are the elements it adds) and the browser fires
  \<^verbatim>\<open>DOMContentLoaded\<close>. The result is \<open>Inl\<close> when the script threw or the browser
  reported an exception of a listener.
\<close>

definition page_load ::
  "(nat \<Rightarrow> string \<Rightarrow> world \<Rightarrow> completion) \<Rightarrow> (string \<rightharpoonup> nat list) \<Rightarrow> world
     \<Rightarrow> js_error + world" where
  "page_load call late w =
     andThen (script w) (\<lambda>w1.
       if readyState w = Loading
       then (case dispatch call DocumentT DOMContentLoaded
                    (w1\<lparr>elements := elements w1 ++ late, readyState := Interactive\<rparr>) of
               (w', []) \<Rightarrow> Inr w'
             | (w', e # es) \<Rightarrow> Inl e)
       else Inr w1)"

text \<open>
  The listeners this script registers, for a page with \<open>n\<close> widgets: each closure sits
  on the target and event type its place in the script gives it, and refers to a widget
  that exists.
\<close>

definition registered_by_script :: "nat \<Rightarrow> target \<times> string \<times> listener \<Rightarrow> bool" where
  "registered_by_script n entry =
     (case entry of (t, ty, l) \<Rightarrow>
        (case l of
           SystemThemeHandler cb \<Rightarrow> t = MediaQueryT \<and> ty = ''change''
         | BtnClick r \<Rightarrow> t = BtnT r \<and> ty = ''click'' \<and> r < n
         | OptionClick r i \<Rightarrow> t = OptionT r i \<and> ty = ''click'' \<and> r < n
         | DocumentClick r \<Rightarrow> t = DocumentT \<and> ty = ''click'' \<and> r < n
         | BtnKeydown r \<Rightarrow> t = BtnT r \<and> ty = ''keydown'' \<and> r < n
         | InitThemeUI \<Rightarrow> t = DocumentT \<and> ty = ''DOMContentLoaded''))"

definition script_listeners_only :: "world \<Rightarrow> bool" where
  "script_listeners_only w =
     list_all (registered_by_script (length (widgets w))) (listeners w)"

text \<open>
  A trace of writes applies the theme before any widget: every insertion of a widget
  comes after a write of the root's \<^verbatim>\<open>data-theme\<close>. The flag says whether such a
  write has been seen.
\<close>

fun theme_before_widget :: "bool \<Rightarrow> dom_write list \<Rightarrow> bool" where
  "theme_before_widget seen [] = True"
| "theme_before_widget seen (SetAttribute n name v # es) =
     theme_before_widget (seen \<or> (n = DocumentElement \<and> name = ''data-theme'')) es"
| "theme_before_widget seen (AppendChild ident r # es) =
     (seen \<and> theme_before_widget seen es)"

subsection \<open>Sample browser states\<close>

text \<open>
  A storage that accepts every call, a storage that refuses every call, a page with the
  mount point \<^verbatim>\<open>themeToggle\<close> and a theme-color meta tag, and the same page with one
  widget whose dropdown is open.
\<close>

definition open_storage :: "(string \<rightharpoonup> string) \<Rightarrow> storage" where
  "open_storage m = \<lparr>items = m, getItem_error = (\<lambda>k. None), setItem_error = (\<lambda>k v. None)\<rparr>"

definition blocked_storage :: storage where
  "blocked_storage =
     \<lparr>items = Map.empty, getItem_error = (\<lambda>k. Some SecurityError),
      setItem_error = (\<lambda>k v. Some QuotaExceededError)\<rparr>"

definition example_world :: "storage \<Rightarrow> bool \<Rightarrow> world" where
  "example_world s dark =
     \<lparr>localStorage = s,
      matchMedia = Some \<lparr>matches = dark, has_addEventListener = True\<rparr>,
      documentElement = Map.empty,
      meta_theme_color = Some Map.empty,
      elements = [''themeToggle'' \<mapsto> []],
      widgets = [],
      listeners = [],
      readyState = Loading,
      ThemeManager = False,
      document_writes = []\<rparr>"

definition widget_world :: world where
  "widget_world =
     (example_world (open_storage Map.empty) True)
       \<lparr>widgets :=
          [(selector_template SYSTEM)\<lparr>dropdown_open := True, btn_aria_expanded := ''true''\<rparr>]\<rparr>"

text \<open>
  A page whose stored preference is a string outside the three themes, a resolver of
  callback references for pages that register no callback, and one whose callbacks all
  throw.
\<close>

definition corrupted_world :: world where
  "corrupted_world = example_world (open_storage [THEME_KEY \<mapsto> ''purple'']) True"

definition no_callbacks :: "nat \<Rightarrow> string \<Rightarrow> world \<Rightarrow> completion" where
  "no_callbacks cb t w = Inr w"

definition throwing_callbacks :: "nat \<Rightarrow> string \<Rightarrow> world \<Rightarrow> completion" where
  "throwing_callbacks cb t w = Inl (ReferenceError, w)"

section \<open>Properties\<close>

subsection \<open>Auxiliary facts\<close>

lemma getStoredTheme_value:
  "getStoredTheme w =
     Inr (case getItem_error (localStorage w) THEME_KEY of
            None \<Rightarrow> items (localStorage w) THEME_KEY
          | Some e \<Rightarrow> None)"
  by (simp add: getStoredTheme_def localStorage_getItem_def split: option.splits)

lemma storeTheme_value:
  "storeTheme theme w =
     Inr (case setItem_error (localStorage w) THEME_KEY theme of
            None \<Rightarrow> w\<lparr>localStorage := (localStorage w)
                      \<lparr>items := (items (localStorage w))(THEME_KEY \<mapsto> theme)\<rparr>\<rparr>
          | Some e \<Rightarrow> w)"
  by (simp add: storeTheme_def localStorage_setItem_def split: option.splits)

lemma storeTheme_total: "\<exists>w1. storeTheme theme w = Inr w1"
  by (simp add: storeTheme_value)

lemma storeTheme_frame:
  assumes "storeTheme theme w = Inr w1"
  shows "matchMedia w1 = matchMedia w" "widgets w1 = widgets w"
    "documentElement w1 = documentElement w" "meta_theme_color w1 = meta_theme_color w"
    "elements w1 = elements w" "listeners w1 = listeners w"
    "document_writes w1 = document_writes w"
  using assms by (auto simp: storeTheme_value split: option.splits)


lemma getEffectiveTheme_cong:
  "matchMedia u = matchMedia w \<Longrightarrow> getEffectiveTheme u p = getEffectiveTheme w p"
  by (cases p) (simp_all add: getEffectiveTheme_def getSystemTheme_def)

lemma applyTheme_frame [simp]:
  "localStorage (applyTheme t w) = localStorage w"
  "matchMedia (applyTheme t w) = matchMedia w"
  "elements (applyTheme t w) = elements w"
  "widgets (applyTheme t w) = widgets w"
  "listeners (applyTheme t w) = listeners w"
  "readyState (applyTheme t w) = readyState w"
  "ThemeManager (applyTheme t w) = ThemeManager w"
  by (simp_all add: applyTheme_def Let_def documentElement_setAttribute_def
      metaThemeColor_setAttribute_def split: option.splits)

lemma getEffectiveTheme_applyTheme [simp]:
  "getEffectiveTheme (applyTheme t w) p = getEffectiveTheme w p"
  by (rule getEffectiveTheme_cong) simp

lemma applyTheme_documentElement:
  "documentElement (applyTheme t w) =
     (documentElement w)(''data-theme'' \<mapsto> getEffectiveTheme w t)"
  by (simp add: applyTheme_def Let_def documentElement_setAttribute_def
      metaThemeColor_setAttribute_def split: option.splits)

lemma applyTheme_meta:
  "meta_theme_color (applyTheme t w) =
     map_option (\<lambda>attrs. attrs(''content'' \<mapsto>
        (if getEffectiveTheme w t = DARK then ''#0f3460'' else ''#2c3e50'')))
       (meta_theme_color w)"
  by (simp add: applyTheme_def Let_def documentElement_setAttribute_def
      metaThemeColor_setAttribute_def split: option.splits)

lemma update_widget_frame [simp]:
  "localStorage (update_widget r f w) = localStorage w"
  "matchMedia (update_widget r f w) = matchMedia w"
  "documentElement (update_widget r f w) = documentElement w"
  "meta_theme_color (update_widget r f w) = meta_theme_color w"
  "elements (update_widget r f w) = elements w"
  "listeners (update_widget r f w) = listeners w"
  "document_writes (update_widget r f w) = document_writes w"
  "length (widgets (update_widget r f w)) = length (widgets w)"
  by (simp_all add: update_widget_def)

lemma update_widget_nth [simp]:
  "r < length (widgets w) \<Longrightarrow> widgets (update_widget r f w) ! r = f (widgets w ! r)"
  by (simp add: update_widget_def)

lemma three_options:
  assumes "map dataset_theme xs = [LIGHT, DARK, SYSTEM]"
  obtains a b c where "xs = [a, b, c]" "dataset_theme a = LIGHT" "dataset_theme b = DARK"
    "dataset_theme c = SYSTEM"
  using assms by (auto simp: map_eq_Cons_conv)

lemma optionClick_value:
  assumes "storeTheme (dataset_theme (options (widgets w ! r) ! i)) w = Inr w1"
  shows "optionClick r i w =
     Inr (close_dropdown r
       (update_widget r (\<lambda>s. s\<lparr>options :=
            map (\<lambda>opt. opt\<lparr>active :=
              (dataset_theme opt = dataset_theme (options (widgets w ! r) ! i))\<rparr>) (options s)\<rparr>)
         (update_widget r (\<lambda>s. s\<lparr>btn_label_textContent :=
              getLabelForTheme (dataset_theme (options (widgets w ! r) ! i))\<rparr>)
           (update_widget r (\<lambda>s. s\<lparr>btn_icon_innerHTML :=
                getIconForTheme (dataset_theme (options (widgets w ! r) ! i))\<rparr>)
             (applyTheme (Some (dataset_theme (options (widgets w ! r) ! i))) w1)))))"
  using assms by (simp add: optionClick_def setTheme_def andThen_def Let_def)

lemma fold_option_listeners:
  "fold (\<lambda>(i, option). addEventListener (OptionT r i) ''click'' (OptionClick r i)) xs w =
     w\<lparr>listeners := listeners w @
          map (\<lambda>(i, option). (OptionT r i, ''click'', OptionClick r i)) xs\<rparr>"
  by (induction xs arbitrary: w) (auto simp: addEventListener_def)

lemma createThemeSelector_builds:
  assumes "getElementById w containerId = Some children"
    and "getStoredTheme w = Inr stored"
  shows "createThemeSelector containerId w =
     Inr (Some (length (widgets w)),
       w\<lparr>widgets := widgets w @ [selector_template (js_or stored SYSTEM)],
         elements := (elements w)(containerId \<mapsto> children @ [length (widgets w)]),
         document_writes := document_writes w @ [AppendChild containerId (length (widgets w))],
         listeners := listeners w @
           [(BtnT (length (widgets w)), ''click'', BtnClick (length (widgets w))),
            (OptionT (length (widgets w)) 0, ''click'', OptionClick (length (widgets w)) 0),
            (OptionT (length (widgets w)) 1, ''click'', OptionClick (length (widgets w)) 1),
            (OptionT (length (widgets w)) 2, ''click'', OptionClick (length (widgets w)) 2),
            (DocumentT, ''click'', DocumentClick (length (widgets w))),
            (BtnT (length (widgets w)), ''keydown'', BtnKeydown (length (widgets w)))]\<rparr>)"
  using assms
  by (simp add: createThemeSelector_def getElementById_def andThen_def Let_def appendChild_def
      addEventListener_def fold_option_listeners selector_template_def numeral_2_eq_2)

lemma applyTheme_writes:
  "document_writes (applyTheme t w) =
     document_writes w @ SetAttribute DocumentElement ''data-theme'' (getEffectiveTheme w t) #
       (case meta_theme_color w of
          None \<Rightarrow> []
        | Some attrs \<Rightarrow> [SetAttribute MetaThemeColor ''content''
            (if getEffectiveTheme w t = DARK then ''#0f3460'' else ''#2c3e50'')])"
  by (simp add: applyTheme_def Let_def documentElement_setAttribute_def
      metaThemeColor_setAttribute_def split: option.splits)

lemma setupSystemThemeListener_writes [simp]:
  "document_writes (setupSystemThemeListener cb w) = document_writes w"
  by (simp add: setupSystemThemeListener_def addListener_def addEventListener_def
      split: option.splits)

lemma initThemeUI_writes:
  "\<exists>w'. initThemeUI w = Inr w' \<and>
     (document_writes w' = document_writes w \<or>
      document_writes w' = document_writes w @ [AppendChild ''themeToggle'' (length (widgets w))])"
proof (cases "getElementById w ''themeToggle''")
  case None
  then show ?thesis by (simp add: initThemeUI_def)
next
  case (Some children)
  obtain stored where st: "getStoredTheme w = Inr stored"
    using getStoredTheme_value by blast
  show ?thesis
    using Some createThemeSelector_builds [OF Some st]
    by (simp add: initThemeUI_def andThen_def)
qed

lemma theme_before_widget_seen: "theme_before_widget True es"
proof (induction es)
  case Nil
  show ?case by simp
next
  case (Cons e es)
  then show ?case by (cases e) simp_all
qed

lemma initTheme_value:
  assumes "getStoredTheme w = Inr stored"
  shows "initTheme w = Inr (js_or stored SYSTEM, applyTheme (Some (js_or stored SYSTEM)) w)"
  using assms by (simp add: initTheme_def andThen_def Let_def)

lemma dispatch_initThemeUI:
  assumes "listeners w = [(DocumentT, ''DOMContentLoaded'', InitThemeUI)]"
    and "initThemeUI w = Inr w'"
  shows "dispatch call DocumentT DOMContentLoaded w = (w', [])"
  using assms by (simp add: dispatch_def listeners_for_def thrown_at_def)

lemma getEffectiveTheme_verbatim:
  "s \<noteq> [] \<Longrightarrow> s \<noteq> SYSTEM \<Longrightarrow> getEffectiveTheme w (Some s) = s"
  by (simp add: getEffectiveTheme_def truthy_def)

lemma getEffectiveTheme_falsy:
  "getEffectiveTheme w None = getEffectiveTheme w (Some SYSTEM)"
  "getEffectiveTheme w (Some []) = getEffectiveTheme w (Some SYSTEM)"
  by (simp_all add: getEffectiveTheme_def truthy_def)

lemma handler_value:
  assumes "getStoredTheme w = Inr stored"
  shows "handler callback w =
     (if stored = Some SYSTEM \<or> \<not> truthy stored
      then (case callback of
              None \<Rightarrow> Inr (applyTheme (Some SYSTEM) w)
            | Some cb \<Rightarrow> cb SYSTEM (applyTheme (Some SYSTEM) w))
      else Inr w)"
  using assms by (simp add: handler_def andThen_def thrown_at_def Let_def)


lemma optionClick_option_themes:
  assumes "r < length (widgets w)" and "optionClick r i w = Inr w'"
  shows "map dataset_theme (options (widgets w' ! r)) =
     map dataset_theme (options (widgets w ! r))"
proof -
  obtain w1 where st: "storeTheme (dataset_theme (options (widgets w ! r) ! i)) w = Inr w1"
    using storeTheme_total by blast
  have "r < length (widgets w1)"
    using assms(1) storeTheme_frame(2) [OF st] by simp
  then show ?thesis
    using assms(2) optionClick_value [OF st] storeTheme_frame(2) [OF st]
    by (auto simp: close_dropdown_def comp_def)
qed

text \<open>
  Where \<^verbatim>\<open>window.matchMedia\<close> exists, \<open>setupSystemThemeListener\<close> registers the
  handler for the change event of the media query, and the browser runs \<open>handler\<close>
  for it.
\<close>

lemma setupSystemThemeListener_registers:
  assumes "matchMedia w = Some mq"
  shows "setupSystemThemeListener cb w =
     w\<lparr>listeners := listeners w @ [(MediaQueryT, ''change'', SystemThemeHandler cb)]\<rparr>"
  using assms
  by (simp add: setupSystemThemeListener_def addListener_def addEventListener_def)






lemma close_dropdown_frame [simp]:
  "localStorage (close_dropdown r w) = localStorage w"
  "matchMedia (close_dropdown r w) = matchMedia w"
  "documentElement (close_dropdown r w) = documentElement w"
  "meta_theme_color (close_dropdown r w) = meta_theme_color w"
  "elements (close_dropdown r w) = elements w"
  "listeners (close_dropdown r w) = listeners w"
  "document_writes (close_dropdown r w) = document_writes w"
  "length (widgets (close_dropdown r w)) = length (widgets w)"
  by (simp_all add: close_dropdown_def)







lemma btnClick_frame [simp]:
  "localStorage (btnClick r w) = localStorage w"
  "matchMedia (btnClick r w) = matchMedia w"
  "documentElement (btnClick r w) = documentElement w"
  "meta_theme_color (btnClick r w) = meta_theme_color w"
  "listeners (btnClick r w) = listeners w"
  "length (widgets (btnClick r w)) = length (widgets w)"
  by (simp_all add: btnClick_def Let_def)


text \<open>
  The first system theme listener registered on the media query is the only one its
  change event runs.
\<close>

lemma setupSystemThemeListener_frame:
  "localStorage (setupSystemThemeListener cb w) = localStorage w"
  "matchMedia (setupSystemThemeListener cb w) = matchMedia w"
  by (simp_all add: setupSystemThemeListener_def addListener_def addEventListener_def
      split: option.splits)

lemma getStoredTheme_cong:
  "localStorage u = localStorage w \<Longrightarrow> getStoredTheme u = getStoredTheme w"
  by (simp add: getStoredTheme_def)

lemma media_change_registered:
  assumes "matchMedia w0 = Some mq"
    and "listeners_for MediaQueryT Change w0 = []"
  shows "media_change call dark (setupSystemThemeListener cb w0) =
     (case handler (map_option call cb)
             (set_system_dark dark (setupSystemThemeListener cb w0)) of
        Inr w' \<Rightarrow> (w', [])
      | Inl (e, w') \<Rightarrow> (w', [e]))"
proof -
  have "listeners_for MediaQueryT Change
      (set_system_dark dark (setupSystemThemeListener cb w0)) = [SystemThemeHandler cb]"
    using assms
    by (simp add: setupSystemThemeListener_registers [OF assms(1)] set_system_dark_def
        listeners_for_def)
  then show ?thesis
    using assms(1)
    by (simp add: media_change_def dispatch_def setupSystemThemeListener_frame
        split: sum.splits)
qed

text \<open>
  A fresh page holds only listeners of this script, and so does every page after
  \<open>createThemeSelector\<close>, \<open>setupSystemThemeListener\<close>, \<open>initThemeUI\<close> and a page
  load.
\<close>

lemma fresh_page_listeners_only: "listeners w = [] \<Longrightarrow> script_listeners_only w"
  by (simp add: script_listeners_only_def)

lemma registered_by_script_mono:
  "registered_by_script n entry \<Longrightarrow> n \<le> m \<Longrightarrow> registered_by_script m entry"
  by (auto simp: registered_by_script_def split: prod.splits listener.splits)

lemma createThemeSelector_listeners_only:
  assumes "script_listeners_only w" and "createThemeSelector containerId w = Inr (x, w')"
  shows "script_listeners_only w'"
proof (cases "getElementById w containerId")
  case None
  then show ?thesis using assms by (simp add: createThemeSelector_def)
next
  case (Some children)
  obtain stored where st: "getStoredTheme w = Inr stored"
    using getStoredTheme_value by blast
  have old: "list_all (registered_by_script (Suc (length (widgets w)))) (listeners w)"
    using assms(1) registered_by_script_mono [of "length (widgets w)" _ "Suc (length (widgets w))"]
    by (auto simp: script_listeners_only_def list_all_iff)
  show ?thesis
    using assms(2) createThemeSelector_builds [OF Some st] old
    by (auto simp: script_listeners_only_def registered_by_script_def)
qed

lemma setupSystemThemeListener_listeners_only:
  "script_listeners_only w \<Longrightarrow> script_listeners_only (setupSystemThemeListener cb w)"
  by (auto simp: script_listeners_only_def setupSystemThemeListener_def addListener_def
      addEventListener_def registered_by_script_def split: option.splits)

lemma initThemeUI_listeners_only:
  assumes "script_listeners_only w" and "initThemeUI w = Inr w'"
  shows "script_listeners_only w'"
proof (cases "getElementById w ''themeToggle'' \<noteq> None \<and> ThemeManager w")
  case False
  then show ?thesis using assms by (auto simp: initThemeUI_def split: option.splits)
next
  case True
  then obtain x w1 where c: "createThemeSelector ''themeToggle'' w = Inr (x, w1)"
    and w': "w' = setupSystemThemeListener None w1"
    using assms(2)
    by (auto simp: initThemeUI_def andThen_def split: option.splits sum.splits)
  show ?thesis
    unfolding w'
    by (rule setupSystemThemeListener_listeners_only)
      (rule createThemeSelector_listeners_only [OF assms(1) c])
qed

lemma page_load_listeners_only:
  assumes "listeners w = []" and "page_load call late w = Inr w'"
  shows "script_listeners_only w'"
proof -
  obtain stored where st: "getStoredTheme w = Inr stored"
    using getStoredTheme_value by blast
  define w2 where "w2 = (applyTheme (Some (js_or stored SYSTEM)) w)\<lparr>ThemeManager := True\<rparr>"
  have init: "initTheme w = Inr (js_or stored SYSTEM, applyTheme (Some (js_or stored SYSTEM)) w)"
    by (rule initTheme_value [OF st])
  have lis2: "listeners w2 = []" using assms(1) by (simp add: w2_def)
  show ?thesis
  proof (cases "readyState w = Loading")
    case True
    define w3 where "w3 = (addEventListener DocumentT ''DOMContentLoaded'' InitThemeUI w2)
        \<lparr>elements := elements (addEventListener DocumentT ''DOMContentLoaded'' InitThemeUI w2)
           ++ late, readyState := Interactive\<rparr>"
    have scr: "script w = Inr (addEventListener DocumentT ''DOMContentLoaded'' InitThemeUI w2)"
      using True init by (simp add: script_def andThen_def w2_def)
    have lis3: "listeners w3 = [(DocumentT, ''DOMContentLoaded'', InitThemeUI)]"
      using lis2 by (simp add: w3_def addEventListener_def)
    have ok3: "script_listeners_only w3"
      by (simp add: script_listeners_only_def lis3 registered_by_script_def)
    obtain u where ui: "initThemeUI w3 = Inr u"
      using initThemeUI_writes [of w3] by blast
    have "page_load call late w = Inr u"
      using True scr dispatch_initThemeUI [OF lis3 ui, of call]
      by (simp add: page_load_def andThen_def w3_def)
    then show ?thesis
      using assms(2) initThemeUI_listeners_only [OF ok3 ui] by simp
  next
    case False
    have scr: "script w = initThemeUI w2"
      using False init by (simp add: script_def andThen_def w2_def)
    have "initThemeUI w2 = Inr w'"
      using assms(2) False scr by (auto simp: page_load_def andThen_def split: sum.splits)
    then show ?thesis
      using initThemeUI_listeners_only [OF fresh_page_listeners_only [OF lis2]] by simp
  qed
qed

subsection \<open>Theme resolution\<close>

text \<open>
  C1. For the preferences \<open>light\<close> and \<open>dark\<close>, \<open>getEffectiveTheme\<close> returns the
  preference unchanged, whatever the system reports. For the preference \<open>system\<close>, for
  \<^verbatim>\<open>null\<close> and for the empty string it returns the result of the dark-mode media
  query: \<open>dark\<close> if the query matches, \<open>light\<close> otherwise (also where
  \<^verbatim>\<open>window.matchMedia\<close> does not exist).
\<close>

theorem getEffectiveTheme_resolves:
  "(p = LIGHT \<or> p = DARK \<longrightarrow> getEffectiveTheme w (Some p) = p) \<and>
   (q = Some SYSTEM \<or> q = None \<or> q = Some [] \<longrightarrow>
      getEffectiveTheme w q =
        (if (case matchMedia w of None \<Rightarrow> False | Some mq \<Rightarrow> matches mq) then DARK else LIGHT))"
  by (auto simp: getEffectiveTheme_def getSystemTheme_def truthy_def split: option.splits)

theorem getEffectiveTheme_resolves_witness:
  "getEffectiveTheme (example_world (open_storage Map.empty) True) (Some LIGHT) = LIGHT \<and>
   getEffectiveTheme (example_world (open_storage Map.empty) True) None = DARK"
  using getEffectiveTheme_resolves [of LIGHT "example_world (open_storage Map.empty) True" None]
  by (simp add: example_world_def)

subsection \<open>The preference store\<close>

text \<open>
  C3. Whatever the storage does, \<open>getStoredTheme\<close> and \<open>storeTheme\<close> never throw. When
  \<^verbatim>\<open>getItem\<close> throws, \<open>getStoredTheme\<close> returns \<^verbatim>\<open>null\<close>; when \<^verbatim>\<open>setItem\<close>
  throws, \<open>storeTheme\<close> returns normally and leaves the world as it was.
\<close>

theorem storage_failures_swallowed:
  "getStoredTheme w \<noteq> Inl e \<and>
   (localStorage_getItem (localStorage w) THEME_KEY = Inl e' \<longrightarrow> getStoredTheme w = Inr None) \<and>
   storeTheme theme w \<noteq> Inl e \<and>
   (localStorage_setItem (localStorage w) THEME_KEY theme = Inl e' \<longrightarrow> storeTheme theme w = Inr w)"
  by (simp add: getStoredTheme_def storeTheme_def split: sum.splits)

theorem storage_failures_swallowed_witness:
  "localStorage_getItem (localStorage (example_world blocked_storage False)) THEME_KEY
     = Inl SecurityError \<and>
   getStoredTheme (example_world blocked_storage False) = Inr None \<and>
   localStorage_setItem (localStorage (example_world blocked_storage False)) THEME_KEY DARK
     = Inl QuotaExceededError \<and>
   storeTheme DARK (example_world blocked_storage False) = Inr (example_world blocked_storage False)"
  using storage_failures_swallowed
    [of "example_world blocked_storage False" _ SecurityError DARK]
     storage_failures_swallowed
    [of "example_world blocked_storage False" _ QuotaExceededError DARK]
  by (simp add: example_world_def blocked_storage_def localStorage_getItem_def
      localStorage_setItem_def)

text \<open>
  C6. When the storage accepts the write and the read, \<open>storeTheme pref\<close> followed by
  \<open>getStoredTheme\<close> returns exactly \<open>pref\<close>, for every string \<open>pref\<close>.
\<close>

theorem store_then_get_roundtrip:
  "setItem_error (localStorage w) THEME_KEY pref = None \<Longrightarrow>
   getItem_error (localStorage w) THEME_KEY = None \<Longrightarrow>
   andThen (storeTheme pref w) getStoredTheme = Inr (Some pref)"
  by (simp add: andThen_def storeTheme_def getStoredTheme_def localStorage_setItem_def
      localStorage_getItem_def)

theorem store_then_get_roundtrip_witness:
  "andThen (storeTheme DARK (example_world (open_storage [THEME_KEY \<mapsto> LIGHT]) False))
     getStoredTheme = Inr (Some DARK)"
  using store_then_get_roundtrip
    [of "example_world (open_storage [THEME_KEY \<mapsto> LIGHT]) False" DARK]
  by (simp add: example_world_def open_storage_def)

text \<open>
  C10. \<open>initTheme\<close> always returns, and never returns \<^verbatim>\<open>null\<close> or the empty string:
  it returns the stored string when that string is not empty, and \<open>system\<close> when
  \<open>getStoredTheme\<close> gives \<^verbatim>\<open>null\<close> or the empty string. In these two cases the
  returned value and the resulting world are the same, so they cannot be told apart.
\<close>

theorem initTheme_never_empty:
  "\<exists>t w'. initTheme w = Inr (t, w') \<and> t \<noteq> [] \<and>
     (\<forall>s. getStoredTheme w = Inr (Some s) \<and> s \<noteq> [] \<longrightarrow> t = s) \<and>
     (getStoredTheme w = Inr None \<or> getStoredTheme w = Inr (Some []) \<longrightarrow>
        t = SYSTEM \<and> w' = applyTheme (Some SYSTEM) w)"
  by (auto simp: initTheme_def andThen_def getStoredTheme_value js_or_def Let_def
      split: option.splits)

theorem initTheme_never_empty_witness:
  "(\<exists>w'. initTheme (example_world (open_storage [THEME_KEY \<mapsto> DARK]) False) = Inr (DARK, w')) \<and>
   (\<exists>w'. initTheme (example_world (open_storage [THEME_KEY \<mapsto> []]) False) = Inr (SYSTEM, w')) \<and>
   (\<exists>w'. initTheme (example_world (open_storage Map.empty) False) = Inr (SYSTEM, w'))"
  using initTheme_never_empty [of "example_world (open_storage [THEME_KEY \<mapsto> DARK]) False"]
    initTheme_never_empty [of "example_world (open_storage [THEME_KEY \<mapsto> []]) False"]
    initTheme_never_empty [of "example_world (open_storage Map.empty) False"]
  by (auto simp: example_world_def open_storage_def getStoredTheme_value)

subsection \<open>Applying a theme\<close>

text \<open>
  C5. \<open>applyTheme\<close> sets the root's \<^verbatim>\<open>data-theme\<close> attribute to the effective theme.
  When the theme-color meta tag exists, its \<^verbatim>\<open>content\<close> becomes \<^verbatim>\<open>#0f3460\<close> for
  the effective theme \<open>dark\<close> and \<^verbatim>\<open>#2c3e50\<close> otherwise; when it does not exist,
  none is created. Applying the same theme a second time leaves all attributes of the
  root and of the meta tag as the first call left them.
\<close>

theorem applyTheme_sets_and_idempotent:
  "documentElement (applyTheme theme w) ''data-theme'' = Some (getEffectiveTheme w theme) \<and>
   (\<forall>attrs. meta_theme_color w = Some attrs \<longrightarrow>
      meta_theme_color (applyTheme theme w) =
        Some (attrs(''content'' \<mapsto>
          (if getEffectiveTheme w theme = DARK then ''#0f3460'' else ''#2c3e50'')))) \<and>
   (meta_theme_color w = None \<longrightarrow> meta_theme_color (applyTheme theme w) = None) \<and>
   documentElement (applyTheme theme (applyTheme theme w)) = documentElement (applyTheme theme w) \<and>
   meta_theme_color (applyTheme theme (applyTheme theme w)) =
     meta_theme_color (applyTheme theme w)"
  unfolding applyTheme_documentElement applyTheme_meta getEffectiveTheme_applyTheme
  by (cases "meta_theme_color w") simp_all

theorem applyTheme_sets_and_idempotent_witness:
  "documentElement (applyTheme (Some DARK) (example_world (open_storage Map.empty) False))
     ''data-theme'' = Some DARK \<and>
   meta_theme_color (applyTheme (Some DARK) (example_world (open_storage Map.empty) False)) =
     Some [''content'' \<mapsto> ''#0f3460'']"
  using applyTheme_sets_and_idempotent
    [of "Some DARK" "example_world (open_storage Map.empty) False"]
  by (simp add: example_world_def getEffectiveTheme_def truthy_def)

subsection \<open>The system theme listener\<close>

text \<open>
  C4. Let \<open>setupSystemThemeListener\<close> register its handler on a media query that had
  no change listener, and let the system preference then change, so that the media query
  fires its change event. If the stored preference is \<open>system\<close>, \<^verbatim>\<open>null\<close> or empty,
  the event applies the theme \<open>system\<close> to the document, which writes the new system
  value (\<open>dark\<close> or \<open>light\<close>) to \<^verbatim>\<open>data-theme\<close>, and then calls the callback, if
  one was given, with \<open>system\<close>; what the callback throws is reported by the browser.
  If the stored preference is \<open>light\<close> or \<open>dark\<close>, the event leaves the world as the
  system's change made it and reports nothing, whatever the callback is: nothing is
  written and the callback is not called.
\<close>

theorem system_change_event:
  assumes "matchMedia w0 = Some mq"
    and "listeners_for MediaQueryT Change w0 = []"
  shows
   "(getStoredTheme w0 = Inr stored \<and>
     (stored = Some SYSTEM \<or> stored = None \<or> stored = Some []) \<longrightarrow>
      media_change call dark (setupSystemThemeListener cb w0) =
        (case cb of
           None \<Rightarrow>
             (applyTheme (Some SYSTEM) (set_system_dark dark (setupSystemThemeListener cb w0)), [])
         | Some c \<Rightarrow>
             (case call c SYSTEM
                (applyTheme (Some SYSTEM)
                   (set_system_dark dark (setupSystemThemeListener cb w0))) of
                Inr w' \<Rightarrow> (w', [])
              | Inl (e, w') \<Rightarrow> (w', [e]))) \<and>
      documentElement
        (applyTheme (Some SYSTEM) (set_system_dark dark (setupSystemThemeListener cb w0)))
        ''data-theme'' = Some (if dark then DARK else LIGHT)) \<and>
    (getStoredTheme w0 = Inr (Some LIGHT) \<or> getStoredTheme w0 = Inr (Some DARK) \<longrightarrow>
      media_change call dark (setupSystemThemeListener cb w0) =
        (set_system_dark dark (setupSystemThemeListener cb w0), []))"
proof -
  let ?wd = "set_system_dark dark (setupSystemThemeListener cb w0)"
  have st: "getStoredTheme ?wd = getStoredTheme w0"
    by (rule getStoredTheme_cong) (simp add: set_system_dark_def setupSystemThemeListener_frame)
  have mm: "matchMedia ?wd = Some (mq\<lparr>matches := dark\<rparr>)"
    using assms(1) by (simp add: set_system_dark_def setupSystemThemeListener_frame)
  have root: "documentElement (applyTheme (Some SYSTEM) ?wd) ''data-theme'' =
      Some (if dark then DARK else LIGHT)"
    by (simp add: applyTheme_documentElement getEffectiveTheme_def getSystemTheme_def mm)
  note ev = media_change_registered [OF assms, of call dark cb]
  show ?thesis
  proof (intro conjI impI)
    assume h: "getStoredTheme w0 = Inr stored \<and>
      (stored = Some SYSTEM \<or> stored = None \<or> stored = Some [])"
    then have hv: "handler (map_option call cb) ?wd =
        (case map_option call cb of
           None \<Rightarrow> Inr (applyTheme (Some SYSTEM) ?wd)
         | Some f \<Rightarrow> f SYSTEM (applyTheme (Some SYSTEM) ?wd))"
      using handler_value [of ?wd stored "map_option call cb"] st
      by (auto simp: truthy_def)
    show "media_change call dark (setupSystemThemeListener cb w0) =
        (case cb of
           None \<Rightarrow> (applyTheme (Some SYSTEM) ?wd, [])
         | Some c \<Rightarrow>
             (case call c SYSTEM (applyTheme (Some SYSTEM) ?wd) of
                Inr w' \<Rightarrow> (w', [])
              | Inl (e, w') \<Rightarrow> (w', [e])))"
      unfolding ev hv by (cases cb) simp_all
    show "documentElement (applyTheme (Some SYSTEM) ?wd) ''data-theme'' =
        Some (if dark then DARK else LIGHT)"
      by (rule root)
  next
    assume h: "getStoredTheme w0 = Inr (Some LIGHT) \<or> getStoredTheme w0 = Inr (Some DARK)"
    then obtain s where s: "getStoredTheme ?wd = Inr (Some s)" "s = LIGHT \<or> s = DARK"
      using st by auto
    have "handler (map_option call cb) ?wd = Inr ?wd"
      using handler_value [OF s(1), of "map_option call cb"] s(2) by (auto simp: truthy_def)
    then show "media_change call dark (setupSystemThemeListener cb w0) = (?wd, [])"
      unfolding ev by simp
  qed
qed

theorem system_change_event_witness:
  "media_change throwing_callbacks True
     (setupSystemThemeListener (Some 0) (example_world (open_storage [THEME_KEY \<mapsto> DARK]) False)) =
     (set_system_dark True
        (setupSystemThemeListener (Some 0)
           (example_world (open_storage [THEME_KEY \<mapsto> DARK]) False)), []) \<and>
   media_change no_callbacks True
     (setupSystemThemeListener None (example_world (open_storage [THEME_KEY \<mapsto> SYSTEM]) False)) =
     (applyTheme (Some SYSTEM)
        (set_system_dark True
           (setupSystemThemeListener None
              (example_world (open_storage [THEME_KEY \<mapsto> SYSTEM]) False))), []) \<and>
   documentElement
     (applyTheme (Some SYSTEM)
        (set_system_dark True
           (setupSystemThemeListener None
              (example_world (open_storage [THEME_KEY \<mapsto> SYSTEM]) False))))
     ''data-theme'' = Some DARK \<and>
   media_change throwing_callbacks True
     (setupSystemThemeListener (Some 0) (example_world (open_storage Map.empty) False)) =
     (applyTheme (Some SYSTEM)
        (set_system_dark True
           (setupSystemThemeListener (Some 0) (example_world (open_storage Map.empty) False))),
      [ReferenceError])"
proof -
  have mq: "\<And>s. matchMedia (example_world s False) =
      Some \<lparr>matches = False, has_addEventListener = True\<rparr>"
    by (simp add: example_world_def)
  have none: "\<And>s. listeners_for MediaQueryT Change (example_world s False) = []"
    by (simp add: listeners_for_def example_world_def)
  show ?thesis
    using system_change_event [OF mq none, of "open_storage [THEME_KEY \<mapsto> DARK]" _
        throwing_callbacks True "Some 0"]
      system_change_event [OF mq none, of "open_storage [THEME_KEY \<mapsto> SYSTEM]" "Some SYSTEM"
        no_callbacks True None]
      system_change_event [OF mq none, of "open_storage Map.empty" None
        throwing_callbacks True "Some 0"]
    by (simp add: getStoredTheme_value example_world_def open_storage_def
        throwing_callbacks_def)
qed

subsection \<open>The widget\<close>

text \<open>
  C8. When no element has the given id, \<open>createThemeSelector\<close> returns
  \<^verbatim>\<open>undefined\<close> without throwing and the world is the one it was given: no element,
  widget or attribute has changed, nothing was written and no listener was registered.
\<close>

theorem createThemeSelector_missing_container:
  "getElementById w containerId = None \<Longrightarrow> createThemeSelector containerId w = Inr (None, w)"
  by (simp add: createThemeSelector_def)

theorem createThemeSelector_missing_container_witness:
  "getElementById (example_world (open_storage Map.empty) False) ''sidebar'' = None \<and>
   createThemeSelector ''sidebar'' (example_world (open_storage Map.empty) False) =
     Inr (None, example_world (open_storage Map.empty) False)"
proof -
  have h: "getElementById (example_world (open_storage Map.empty) False) ''sidebar'' = None"
    by (simp add: getElementById_def example_world_def)
  show ?thesis
    using h createThemeSelector_missing_container [OF h] by simp
qed



subsection \<open>Page load\<close>

text \<open>
  C9. In every page load (a fresh page: the script has registered no listener yet,
  whether the document is still loading or not, and whatever the parser adds before
  \<^verbatim>\<open>DOMContentLoaded\<close>), the load completes without an exception, the first write
  to the page is \<open>initTheme\<close>'s write of the effective theme to the root's
  \<^verbatim>\<open>data-theme\<close>, and every insertion of a widget comes after it.
\<close>

theorem theme_applied_before_widget:
  assumes "listeners w = []"
  shows "\<exists>t u w' rest. initTheme w = Inr (t, u) \<and> page_load call late w = Inr w' \<and>
     document_writes w' =
       document_writes w @
         SetAttribute DocumentElement ''data-theme'' (getEffectiveTheme w (Some t)) # rest \<and>
     theme_before_widget False
       (SetAttribute DocumentElement ''data-theme'' (getEffectiveTheme w (Some t)) # rest)"
proof -
  obtain stored where st: "getStoredTheme w = Inr stored"
    using getStoredTheme_value by blast
  define t where "t = js_or stored SYSTEM"
  define u where "u = applyTheme (Some t) w"
  define w2 where "w2 = u\<lparr>ThemeManager := True\<rparr>"
  define first where
    "first = SetAttribute DocumentElement ''data-theme'' (getEffectiveTheme w (Some t))"
  have init: "initTheme w = Inr (t, u)"
    using initTheme_value [OF st] by (simp add: t_def u_def)
  obtain metas where writes2: "document_writes w2 = document_writes w @ first # metas"
    by (simp add: w2_def u_def first_def applyTheme_writes)
  have ready2: "readyState w2 = readyState w" and lis2: "listeners w2 = []"
    using assms by (simp_all add: w2_def u_def)
  have "\<exists>w' more. page_load call late w = Inr w' \<and>
      document_writes w' = document_writes w2 @ more"
  proof (cases "readyState w = Loading")
    case True
    define w3 where "w3 = (addEventListener DocumentT ''DOMContentLoaded'' InitThemeUI w2)
        \<lparr>elements := elements (addEventListener DocumentT ''DOMContentLoaded'' InitThemeUI w2)
           ++ late, readyState := Interactive\<rparr>"
    have scr: "script w = Inr (addEventListener DocumentT ''DOMContentLoaded'' InitThemeUI w2)"
      using True ready2 init by (simp add: script_def andThen_def w2_def)
    have lis3: "listeners w3 = [(DocumentT, ''DOMContentLoaded'', InitThemeUI)]"
      using lis2 by (simp add: w3_def addEventListener_def)
    have writes3: "document_writes w3 = document_writes w2"
      by (simp add: w3_def addEventListener_def)
    obtain w' where ui: "initThemeUI w3 = Inr w'"
      and more: "document_writes w' = document_writes w3 \<or>
        document_writes w' =
          document_writes w3 @ [AppendChild ''themeToggle'' (length (widgets w3))]"
      using initThemeUI_writes [of w3] by blast
    have "page_load call late w = Inr w'"
      using True scr dispatch_initThemeUI [OF lis3 ui, of call]
      by (simp add: page_load_def andThen_def w3_def)
    then show ?thesis
      using more writes3 by auto
  next
    case False
    have scr: "script w = initThemeUI w2"
      using False ready2 init by (simp add: script_def andThen_def w2_def)
    obtain w' where "initThemeUI w2 = Inr w'"
      and "document_writes w' = document_writes w2 \<or>
        document_writes w' =
          document_writes w2 @ [AppendChild ''themeToggle'' (length (widgets w2))]"
      using initThemeUI_writes [of w2] by blast
    then show ?thesis
      using False scr by (auto simp: page_load_def andThen_def)
  qed
  then obtain w' more where run: "page_load call late w = Inr w'"
    and writes: "document_writes w' = document_writes w @ first # (metas @ more)"
    using writes2 by auto
  have order: "theme_before_widget False (first # (metas @ more))"
    by (simp add: first_def theme_before_widget_seen)
  show ?thesis
    using init run writes order unfolding first_def by blast
qed

theorem theme_applied_before_widget_witness:
  "listeners (example_world (open_storage Map.empty) True) = [] \<and>
   (\<exists>t u w' rest.
      initTheme (example_world (open_storage Map.empty) True) = Inr (t, u) \<and>
      page_load no_callbacks Map.empty (example_world (open_storage Map.empty) True) = Inr w' \<and>
      document_writes w' =
        document_writes (example_world (open_storage Map.empty) True) @
          SetAttribute DocumentElement ''data-theme''
            (getEffectiveTheme (example_world (open_storage Map.empty) True) (Some t)) # rest \<and>
      theme_before_widget False
        (SetAttribute DocumentElement ''data-theme''
           (getEffectiveTheme (example_world (open_storage Map.empty) True) (Some t)) # rest)) \<and>
   map_sum id document_writes
     (page_load no_callbacks Map.empty (example_world (open_storage Map.empty) True)) =
   Inr [SetAttribute DocumentElement ''data-theme'' DARK,
        SetAttribute MetaThemeColor ''content'' ''#0f3460'',
        AppendChild ''themeToggle'' 0]"
proof -
  have h: "listeners (example_world (open_storage Map.empty) True) = []"
    by (simp add: example_world_def)
  have run: "map_sum id document_writes
     (page_load no_callbacks Map.empty (example_world (open_storage Map.empty) True)) =
   Inr [SetAttribute DocumentElement ''data-theme'' DARK,
        SetAttribute MetaThemeColor ''content'' ''#0f3460'',
        AppendChild ''themeToggle'' 0]"
    by (simp add: page_load_def script_def initTheme_def andThen_def getStoredTheme_value
        example_world_def open_storage_def js_or_def Let_def applyTheme_def
        getEffectiveTheme_def getSystemTheme_def truthy_def documentElement_setAttribute_def
        metaThemeColor_setAttribute_def addEventListener_def dispatch_def listeners_for_def
        thrown_at_def initThemeUI_def
        getElementById_def createThemeSelector_def appendChild_def fold_option_listeners
        selector_template_def setupSystemThemeListener_def)
  show ?thesis
    using h run theme_applied_before_widget [OF h, of no_callbacks Map.empty] by simp
qed

subsection \<open>The persisted preference\<close>

text \<open>
  C2, as the code has it. A click on an option of a widget built by
  \<open>createThemeSelector\<close> persists one of light, dark and system. When the stored value
  is \<^verbatim>\<open>null\<close> (absent, or the storage throws) or the empty string, \<open>initTheme\<close>, the
  change handler, \<open>createThemeSelector\<close> and \<open>getEffectiveTheme\<close> behave exactly as
  for the stored value \<open>system\<close>. Any other string is not normalised:
  \<open>getEffectiveTheme\<close> returns it unchanged, \<open>initTheme\<close> returns it and writes it to
  \<^verbatim>\<open>data-theme\<close>, and the change handler leaves the world unchanged.
\<close>

theorem persisted_preference_handling:
  "(r < length (widgets w) \<and>
    map dataset_theme (options (widgets w ! r)) = [LIGHT, DARK, SYSTEM] \<and> i < 3 \<longrightarrow>
      (\<exists>t w1 w'. t \<in> {LIGHT, DARK, SYSTEM} \<and> storeTheme t w = Inr w1 \<and>
         optionClick r i w = Inr w' \<and> localStorage w' = localStorage w1)) \<and>
   (getStoredTheme w = Inr None \<or> getStoredTheme w = Inr (Some []) \<or>
    getStoredTheme w = Inr (Some SYSTEM) \<longrightarrow>
      initTheme w = Inr (SYSTEM, applyTheme (Some SYSTEM) w) \<and>
      handler callback w =
        (case callback of
           None \<Rightarrow> Inr (applyTheme (Some SYSTEM) w)
         | Some cb \<Rightarrow> cb SYSTEM (applyTheme (Some SYSTEM) w)) \<and>
      (\<forall>children. getElementById w containerId = Some children \<longrightarrow>
         (\<exists>w'. createThemeSelector containerId w = Inr (Some (length (widgets w)), w') \<and>
            widgets w' = widgets w @ [selector_template SYSTEM]))) \<and>
   getEffectiveTheme w None = getEffectiveTheme w (Some SYSTEM) \<and>
   getEffectiveTheme w (Some []) = getEffectiveTheme w (Some SYSTEM) \<and>
   (s \<noteq> [] \<and> s \<noteq> SYSTEM \<longrightarrow>
      getEffectiveTheme w (Some s) = s \<and>
      (getStoredTheme w = Inr (Some s) \<longrightarrow>
         initTheme w = Inr (s, applyTheme (Some s) w) \<and>
         documentElement (applyTheme (Some s) w) ''data-theme'' = Some s \<and>
         handler callback w = Inr w))"
proof (intro conjI impI)
  assume h: "r < length (widgets w) \<and>
    map dataset_theme (options (widgets w ! r)) = [LIGHT, DARK, SYSTEM] \<and> i < 3"
  then obtain a b c where opts: "options (widgets w ! r) = [a, b, c]"
    and th: "dataset_theme a = LIGHT" "dataset_theme b = DARK" "dataset_theme c = SYSTEM"
    using three_options by blast
  from h have "i = 0 \<or> i = 1 \<or> i = 2" by arith
  then have enum: "dataset_theme (options (widgets w ! r) ! i) \<in> {LIGHT, DARK, SYSTEM}"
    using opts th by auto
  obtain w1 where st: "storeTheme (dataset_theme (options (widgets w ! r) ! i)) w = Inr w1"
    using storeTheme_total by blast
  show "\<exists>t w1 w'. t \<in> {LIGHT, DARK, SYSTEM} \<and> storeTheme t w = Inr w1 \<and>
         optionClick r i w = Inr w' \<and> localStorage w' = localStorage w1"
    apply (rule exI [of _ "dataset_theme (options (widgets w ! r) ! i)"])
    apply (rule exI [of _ w1])
    using enum st optionClick_value [OF st] by (simp add: close_dropdown_def)
next
  assume h: "getStoredTheme w = Inr None \<or> getStoredTheme w = Inr (Some []) \<or>
    getStoredTheme w = Inr (Some SYSTEM)"
  then obtain stored where st: "getStoredTheme w = Inr stored"
    and sys: "js_or stored SYSTEM = SYSTEM" "stored = Some SYSTEM \<or> \<not> truthy stored"
    by (auto simp: js_or_def truthy_def)
  show "initTheme w = Inr (SYSTEM, applyTheme (Some SYSTEM) w)"
    using initTheme_value [OF st] sys(1) by simp
  show "handler callback w =
        (case callback of
           None \<Rightarrow> Inr (applyTheme (Some SYSTEM) w)
         | Some cb \<Rightarrow> cb SYSTEM (applyTheme (Some SYSTEM) w))"
    using handler_value [OF st] sys(2) by simp
  show "\<forall>children. getElementById w containerId = Some children \<longrightarrow>
         (\<exists>w'. createThemeSelector containerId w = Inr (Some (length (widgets w)), w') \<and>
            widgets w' = widgets w @ [selector_template SYSTEM])"
    using createThemeSelector_builds [OF _ st, of containerId] sys(1) by simp
next
  show "getEffectiveTheme w None = getEffectiveTheme w (Some SYSTEM)"
    by (rule getEffectiveTheme_falsy)
  show "getEffectiveTheme w (Some []) = getEffectiveTheme w (Some SYSTEM)"
    by (rule getEffectiveTheme_falsy)
next
  assume h: "s \<noteq> [] \<and> s \<noteq> SYSTEM"
  then show eff: "getEffectiveTheme w (Some s) = s"
    by (simp add: getEffectiveTheme_verbatim)
  assume st: "getStoredTheme w = Inr (Some s)"
  show "initTheme w = Inr (s, applyTheme (Some s) w)"
    using initTheme_value [OF st] h by (simp add: js_or_def)
  show "documentElement (applyTheme (Some s) w) ''data-theme'' = Some s"
    using eff by (simp add: applyTheme_documentElement)
  show "handler callback w = Inr w"
    using handler_value [OF st] h by (simp add: truthy_def)
qed

theorem persisted_preference_handling_witness:
  "(\<exists>t w1 w'. t \<in> {LIGHT, DARK, SYSTEM} \<and> storeTheme t widget_world = Inr w1 \<and>
      optionClick 0 1 widget_world = Inr w' \<and> localStorage w' = localStorage w1) \<and>
   initTheme widget_world = Inr (SYSTEM, applyTheme (Some SYSTEM) widget_world) \<and>
   handler None widget_world = Inr (applyTheme (Some SYSTEM) widget_world) \<and>
   getEffectiveTheme corrupted_world (Some ''purple'') = ''purple'' \<and>
   initTheme corrupted_world = Inr (''purple'', applyTheme (Some ''purple'') corrupted_world) \<and>
   handler None corrupted_world = Inr corrupted_world"
proof -
  have h1: "0 < length (widgets widget_world)"
    by (simp add: widget_world_def)
  have h2: "map dataset_theme (options (widgets widget_world ! 0)) = [LIGHT, DARK, SYSTEM]"
    by (simp add: widget_world_def selector_template_def)
  have h3: "getStoredTheme widget_world = Inr None"
    by (simp add: getStoredTheme_value widget_world_def example_world_def open_storage_def)
  have h4: "getStoredTheme corrupted_world = Inr (Some ''purple'')"
    by (simp add: getStoredTheme_value corrupted_world_def example_world_def open_storage_def)
  show ?thesis
    using persisted_preference_handling [of 0 widget_world 1 None _ "''purple''"]
      persisted_preference_handling [of 0 corrupted_world 1 None _ "''purple''"]
      h1 h2 h3 h4
    by simp
qed

text \<open>
  C2, as stated, fails: with the stored value \<open>purple\<close>, \<open>initTheme\<close> does not do
  what it does for \<open>system\<close>. It returns \<open>purple\<close> and writes \<open>purple\<close> to
  \<^verbatim>\<open>data-theme\<close>, where the preference \<open>system\<close> gives \<open>dark\<close> on this page.
\<close>

theorem corrupted_preference_counterexample:
  "getStoredTheme corrupted_world = Inr (Some ''purple'') \<and>
   initTheme corrupted_world \<noteq> Inr (SYSTEM, applyTheme (Some SYSTEM) corrupted_world) \<and>
   initTheme corrupted_world = Inr (''purple'', applyTheme (Some ''purple'') corrupted_world) \<and>
   documentElement (applyTheme (Some ''purple'') corrupted_world) ''data-theme'' =
     Some ''purple'' \<and>
   documentElement (applyTheme (Some SYSTEM) corrupted_world) ''data-theme'' = Some DARK"
proof -
  have st: "getStoredTheme corrupted_world = Inr (Some ''purple'')"
    by (simp add: getStoredTheme_value corrupted_world_def example_world_def open_storage_def)
  have init: "initTheme corrupted_world =
      Inr (''purple'', applyTheme (Some ''purple'') corrupted_world)"
    using initTheme_value [OF st] by (simp add: js_or_def)
  have purple: "getEffectiveTheme corrupted_world (Some ''purple'') = ''purple''"
    by (simp add: getEffectiveTheme_def truthy_def)
  have sys: "getEffectiveTheme corrupted_world (Some SYSTEM) = DARK"
    by (simp add: getEffectiveTheme_def getSystemTheme_def corrupted_world_def
        example_world_def)
  show ?thesis
    using st init purple sys by (simp add: applyTheme_documentElement)
qed

end
